theory Spec2Isabelle
  imports Main "HOL-Library.Word" "HOL-Library.Sublist"
begin

section \<open>Scalar types of the program\<close>

text \<open>
  The program's \<^verbatim>\<open>int\<close> is a 32-bit two's complement integer, a \<open>32 word\<close> read
  through \<open>sint\<close>. Its \<^verbatim>\<open>float\<close> is an IEEE 754 binary32 value, modelled by its bit
  pattern: bit 31 is the sign, bits 30..23 the biased exponent, bits 22..0 the fraction.
  The only float operations of the program are the comparisons \<^verbatim>\<open><\<close> and \<^verbatim>\<open>>\<close> and
  the stream inserter.
\<close>

type_synonym cint = "32 word"
type_synonym float = "32 word"

definition sign_bit :: "float \<Rightarrow> bool" where
  "sign_bit f = bit f 31"

definition exponent :: "float \<Rightarrow> nat" where
  "exponent f = unat (drop_bit 23 f) mod 256"

definition fraction :: "float \<Rightarrow> nat" where
  "fraction f = unat f mod 2 ^ 23"

definition is_nan :: "float \<Rightarrow> bool" where
  "is_nan f = (exponent f = 255 \<and> fraction f \<noteq> 0)"

definition is_finite :: "float \<Rightarrow> bool" where
  "is_finite f = (exponent f \<noteq> 255)"

text \<open>
  The absolute value of a float in units of \<open>2 ^ -149\<close> (the smallest subnormal), so
  that every finite float is a natural number of units. An infinity gets \<open>2 ^ 277\<close>
  units, above every finite value.
\<close>

definition magnitude :: "float \<Rightarrow> nat" where
  "magnitude f =
     (if exponent f = 0 then fraction f
      else (2 ^ 23 + fraction f) * 2 ^ (exponent f - 1))"

definition scaled :: "float \<Rightarrow> int" where
  "scaled f = (if sign_bit f then - int (magnitude f) else int (magnitude f))"

text \<open>
  The comparisons of the language on floats: false as soon as an operand is a NaN;
  \<open>-0\<close> and \<open>+0\<close> compare equal.
\<close>

definition float_less :: "float \<Rightarrow> float \<Rightarrow> bool" where
  "float_less a b = (\<not> is_nan a \<and> \<not> is_nan b \<and> scaled a < scaled b)"

definition float_greater :: "float \<Rightarrow> float \<Rightarrow> bool" where
  "float_greater a b = float_less b a"

definition float_eq :: "float \<Rightarrow> float \<Rightarrow> bool" where
  "float_eq a b = (\<not> is_nan a \<and> \<not> is_nan b \<and> scaled a = scaled b)"

text \<open>\<^verbatim>\<open>std::numeric_limits<float>::max()\<close>: exponent 254, all fraction bits set.\<close>

definition FLT_MAX :: float where
  "FLT_MAX = 0x7F7FFFFF"

section \<open>The record: struct Card\<close>

record Card =
  m_name :: string
  m_cost :: float
  m_id :: cint
  m_version :: cint
  m_leader_id :: cint

text \<open>
  A \<^verbatim>\<open>char const*\<close> denotes the characters before the first NUL: this is what
  constructing a \<^verbatim>\<open>std::string\<close> from it copies, and what inserting
  \<^verbatim>\<open>c_str()\<close> into a stream writes.
\<close>

definition c_str :: "string \<Rightarrow> string" where
  "c_str s = takeWhile (\<lambda>c. c \<noteq> CHR 0x00) s"

definition Card_ctor :: "cint \<Rightarrow> string \<Rightarrow> float \<Rightarrow> cint \<Rightarrow> cint \<Rightarrow> Card" where
  "Card_ctor ident name cost version leader_id =
     \<lparr>m_name = c_str name, m_cost = cost, m_id = ident,
      m_version = version, m_leader_id = leader_id\<rparr>"

section \<open>The predicate components\<close>

subsection \<open>struct EmptyFilter\<close>

definition EmptyFilter_evaluate :: "Card \<Rightarrow> bool" where
  "EmptyFilter_evaluate crd = True"

subsection \<open>struct CostFilter\<close>

record CostFilter =
  m_max_cost :: float
  m_min_cost :: float

definition CostFilter_ctor :: CostFilter where
  "CostFilter_ctor = \<lparr>m_max_cost = FLT_MAX, m_min_cost = 0\<rparr>"

definition max_cost :: "float \<Rightarrow> CostFilter \<Rightarrow> CostFilter" where
  "max_cost v this = this\<lparr>m_max_cost := v\<rparr>"

definition min_cost :: "float \<Rightarrow> CostFilter \<Rightarrow> CostFilter" where
  "min_cost v this = this\<lparr>m_min_cost := v\<rparr>"

definition CostFilter_evaluate :: "CostFilter \<Rightarrow> Card \<Rightarrow> bool" where
  "CostFilter_evaluate this crd =
     (float_greater (m_cost crd) (m_min_cost this) \<and>
      float_less (m_cost crd) (m_max_cost this))"

subsection \<open>struct VersionFilter\<close>

record VersionFilter =
  m_versions :: "cint list"

definition VersionFilter_ctor :: VersionFilter where
  "VersionFilter_ctor = \<lparr>m_versions = []\<rparr>"

definition VersionFilter_init :: "cint list \<Rightarrow> VersionFilter" where
  "VersionFilter_init init_list = \<lparr>m_versions = init_list\<rparr>"

definition add_version :: "cint \<Rightarrow> VersionFilter \<Rightarrow> VersionFilter" where
  "add_version version this = this\<lparr>m_versions := m_versions this @ [version]\<rparr>"

text \<open>
  \<^verbatim>\<open>std::find(first, last, value)\<close> over a whole vector, an iterator being its
  index: the index of the first element equal to the value, the vector's length
  (\<^verbatim>\<open>end()\<close>) when there is none.
\<close>

fun std_find :: "'a list \<Rightarrow> 'a \<Rightarrow> nat" where
  "std_find [] v = 0"
| "std_find (x # xs) v = (if x = v then 0 else Suc (std_find xs v))"

definition VersionFilter_evaluate :: "VersionFilter \<Rightarrow> Card \<Rightarrow> bool" where
  "VersionFilter_evaluate this crd =
     (std_find (m_versions this) (m_version crd) \<noteq> length (m_versions this))"

section \<open>The composer: template struct MetaFilter\<close>

text \<open>
  A \<^verbatim>\<open>MetaFilter<Filter, MoreFilters...>\<close> object consists of one base subobject per
  template argument. A base subobject is one of the three component structs; the
  template arguments are their names.
\<close>

datatype kind = T_EmptyFilter | T_CostFilter | T_VersionFilter

datatype component =
    EmptyF
  | CostF CostFilter
  | VersionF VersionFilter

fun base_evaluate :: "component \<Rightarrow> Card \<Rightarrow> bool" where
  "base_evaluate EmptyF crd = EmptyFilter_evaluate crd"
| "base_evaluate (CostF cf) crd = CostFilter_evaluate cf crd"
| "base_evaluate (VersionF vf) crd = VersionFilter_evaluate vf crd"

fun default_construct :: "kind \<Rightarrow> component" where
  "default_construct T_EmptyFilter = EmptyF"
| "default_construct T_CostFilter = CostF CostFilter_ctor"
| "default_construct T_VersionFilter = VersionF VersionFilter_ctor"

record MetaFilter =
  Filter :: component
  MoreFilters :: "component list"

text \<open>
  Declaring a variable of type \<^verbatim>\<open>MetaFilter<...>\<close>. An empty argument list takes the
  default argument \<^verbatim>\<open>Filter = EmptyFilter\<close>. A class cannot name the same direct base
  twice, so an argument list with a repeated struct is ill-formed: \<open>None\<close>. Every base
  is default-constructed.
\<close>

definition MetaFilter_decl :: "kind \<Rightarrow> kind list \<Rightarrow> MetaFilter option" where
  "MetaFilter_decl F More =
     (if distinct (F # More)
      then Some \<lparr>Filter = default_construct F, MoreFilters = map default_construct More\<rparr>
      else None)"

fun MetaFilter_instantiate :: "kind list \<Rightarrow> MetaFilter option" where
  "MetaFilter_instantiate [] = MetaFilter_decl T_EmptyFilter []"
| "MetaFilter_instantiate (F # More) = MetaFilter_decl F More"

text \<open>
  The body of \<^verbatim>\<open>MetaFilter::evaluate\<close>. The pack expansion
  \<^verbatim>\<open>{ ( ret = ret && MoreFilters::evaluate( card ), 0 )... }\<close> is a braced list, whose
  elements are evaluated left to right; each assigns
  \<^verbatim>\<open>ret && MoreFilters::evaluate( card )\<close> to \<^verbatim>\<open>ret\<close>, and \<^verbatim>\<open>&&\<close> evaluates its right
  operand only when the left one is true. Beside \<^verbatim>\<open>ret\<close> the model keeps the list of
  base subobjects whose \<^verbatim>\<open>evaluate\<close> has been called, in call order; the program has
  no such list, it is there to state which calls happen.
\<close>

fun evaluate_more :: "component list \<Rightarrow> Card \<Rightarrow> bool \<times> component list \<Rightarrow> bool \<times> component list" where
  "evaluate_more [] crd (ret, calls) = (ret, calls)"
| "evaluate_more (f # fs) crd (ret, calls) =
     (if ret then evaluate_more fs crd (base_evaluate f crd, calls @ [f])
      else evaluate_more fs crd (False, calls))"

definition MetaFilter_run :: "MetaFilter \<Rightarrow> Card \<Rightarrow> bool \<times> component list" where
  "MetaFilter_run this crd =
     evaluate_more (MoreFilters this) crd (base_evaluate (Filter this) crd, [Filter this])"

definition MetaFilter_evaluate :: "MetaFilter \<Rightarrow> Card \<Rightarrow> bool" where
  "MetaFilter_evaluate this crd = fst (MetaFilter_run this crd)"

definition MetaFilter_calls :: "MetaFilter \<Rightarrow> Card \<Rightarrow> component list" where
  "MetaFilter_calls this crd = snd (MetaFilter_run this crd)"

text \<open>
  The member functions a \<^verbatim>\<open>MetaFilter\<close> inherits from its bases act on the base
  subobject of their struct (there is at most one). On a \<^verbatim>\<open>MetaFilter\<close> without that
  base the call does not compile; the model leaves such a filter as it is.
\<close>

definition on_bases :: "(component \<Rightarrow> component) \<Rightarrow> MetaFilter \<Rightarrow> MetaFilter" where
  "on_bases g this = \<lparr>Filter = g (Filter this), MoreFilters = map g (MoreFilters this)\<rparr>"

fun on_CostFilter :: "(CostFilter \<Rightarrow> CostFilter) \<Rightarrow> component \<Rightarrow> component" where
  "on_CostFilter g (CostF cf) = CostF (g cf)"
| "on_CostFilter g c = c"

fun on_VersionFilter :: "(VersionFilter \<Rightarrow> VersionFilter) \<Rightarrow> component \<Rightarrow> component" where
  "on_VersionFilter g (VersionF vf) = VersionF (g vf)"
| "on_VersionFilter g c = c"

definition MetaFilter_max_cost :: "float \<Rightarrow> MetaFilter \<Rightarrow> MetaFilter" where
  "MetaFilter_max_cost v = on_bases (on_CostFilter (max_cost v))"

definition MetaFilter_min_cost :: "float \<Rightarrow> MetaFilter \<Rightarrow> MetaFilter" where
  "MetaFilter_min_cost v = on_bases (on_CostFilter (min_cost v))"

definition MetaFilter_add_version :: "cint \<Rightarrow> MetaFilter \<Rightarrow> MetaFilter" where
  "MetaFilter_add_version v = on_bases (on_VersionFilter (add_version v))"

section \<open>Memory\<close>

text \<open>
  A \<^verbatim>\<open>Card*\<close> is an address; the heap maps the addresses of the live \<^verbatim>\<open>Card\<close> objects
  to their contents. A \<^verbatim>\<open>CardList\<close> is a vector of such pointers. The function
  \<^verbatim>\<open>get_cards\<close> receives its two vectors by reference, and nothing keeps both
  references from denoting the same vector, so the vectors live in a store indexed by
  their identity.
\<close>

type_synonym addr = nat
type_synonym CardList = "addr list"
type_synonym vref = nat

record memory =
  heap :: "addr \<rightharpoonup> Card"
  vectors :: "vref \<Rightarrow> CardList"

definition clear :: "vref \<Rightarrow> memory \<Rightarrow> memory" where
  "clear v mem = mem\<lparr>vectors := (vectors mem)(v := [])\<rparr>"

text \<open>\<^verbatim>\<open>reserve\<close> changes the capacity of a vector, not its elements.\<close>

definition reserve :: "vref \<Rightarrow> nat \<Rightarrow> memory \<Rightarrow> memory" where
  "reserve v n mem = mem"

definition push_back :: "vref \<Rightarrow> addr \<Rightarrow> memory \<Rightarrow> memory" where
  "push_back v p mem = mem\<lparr>vectors := (vectors mem)(v := vectors mem v @ [p])\<rparr>"

definition vector_size :: "vref \<Rightarrow> memory \<Rightarrow> nat" where
  "vector_size v mem = length (vectors mem v)"

section \<open>The collection filter operation: get_cards\<close>

text \<open>
  The range-based \<^verbatim>\<open>for\<close> fixes \<^verbatim>\<open>cards.begin()\<close> and \<^verbatim>\<open>cards.end()\<close> when the loop
  starts, so the loop runs over the elements \<^verbatim>\<open>cards\<close> has at that moment; its body
  writes to \<^verbatim>\<open>out_cards\<close> only. Dereferencing a pointer that is not the address of a
  live \<^verbatim>\<open>Card\<close> is undefined behaviour: the result is \<open>None\<close>. The template parameter
  \<^verbatim>\<open>Filter\<close> is a type \<open>'f\<close> together with its \<^verbatim>\<open>evaluate\<close>. Beside the memory the
  loop keeps the list of the pointers it has passed to \<^verbatim>\<open>evaluate\<close>, in call order;
  the program has no such list, it is there to state which calls happen.
\<close>

fun get_cards_loop ::
  "('f \<Rightarrow> Card \<Rightarrow> bool) \<Rightarrow> 'f \<Rightarrow> vref \<Rightarrow> addr list \<Rightarrow> memory \<times> addr list
     \<Rightarrow> (memory \<times> addr list) option" where
  "get_cards_loop evaluate fltr out_cards [] (mem, evaluated) = Some (mem, evaluated)"
| "get_cards_loop evaluate fltr out_cards (p # rest) (mem, evaluated) =
     (case heap mem p of
        None \<Rightarrow> None
      | Some crd \<Rightarrow>
          if evaluate fltr crd
          then get_cards_loop evaluate fltr out_cards rest
                 (push_back out_cards p mem, evaluated @ [p])
          else get_cards_loop evaluate fltr out_cards rest (mem, evaluated @ [p]))"

definition get_cards_run ::
  "('f \<Rightarrow> Card \<Rightarrow> bool) \<Rightarrow> vref \<Rightarrow> 'f \<Rightarrow> vref \<Rightarrow> memory \<Rightarrow> (memory \<times> addr list) option" where
  "get_cards_run evaluate cards fltr out_cards mem =
     (let mem1 = clear out_cards mem;
          mem2 = reserve out_cards (vector_size cards mem1) mem1
      in get_cards_loop evaluate fltr out_cards (vectors mem2 cards) (mem2, []))"

text \<open>
  The returned \<^verbatim>\<open>size_t\<close> is the size of a vector, which always fits the type: a
  natural number.
\<close>

definition get_cards ::
  "('f \<Rightarrow> Card \<Rightarrow> bool) \<Rightarrow> vref \<Rightarrow> 'f \<Rightarrow> vref \<Rightarrow> memory \<Rightarrow> (nat \<times> memory) option" where
  "get_cards evaluate cards fltr out_cards mem =
     (case get_cards_run evaluate cards fltr out_cards mem of
        None \<Rightarrow> None
      | Some (mem', evaluated) \<Rightarrow> Some (vector_size out_cards mem', mem'))"

definition get_cards_evaluated ::
  "('f \<Rightarrow> Card \<Rightarrow> bool) \<Rightarrow> vref \<Rightarrow> 'f \<Rightarrow> vref \<Rightarrow> memory \<Rightarrow> addr list option" where
  "get_cards_evaluated evaluate cards fltr out_cards mem =
     map_option snd (get_cards_run evaluate cards fltr out_cards mem)"

text \<open>
  Whether the record behind a pointer passes a filter (no record: no), used to state
  what \<^verbatim>\<open>get_cards\<close> keeps.
\<close>

definition matches :: "('f \<Rightarrow> Card \<Rightarrow> bool) \<Rightarrow> 'f \<Rightarrow> memory \<Rightarrow> addr \<Rightarrow> bool" where
  "matches evaluate fltr mem p =
     (case heap mem p of None \<Rightarrow> False | Some crd \<Rightarrow> evaluate fltr crd)"

text \<open>
  The elements the loop of \<^verbatim>\<open>get_cards\<close> runs over: those of \<^verbatim>\<open>cards\<close> after
  \<^verbatim>\<open>out_cards.clear()\<close>, none when both references denote the same vector.
\<close>

definition visited :: "vref \<Rightarrow> vref \<Rightarrow> memory \<Rightarrow> addr list" where
  "visited cards out_cards mem = (if cards = out_cards then [] else vectors mem cards)"

section \<open>Rendering a record: operator<<\<close>

text \<open>
  An output stream in its initial formatting state (decimal integers, general float
  notation with precision 6, no field width) is the text written to it so far. The
  inserters of the standard library for \<^verbatim>\<open>int\<close>, \<^verbatim>\<open>float\<close> and \<^verbatim>\<open>char const*\<close> are not
  code of the program; they are modelled from the behaviour the library documents.
\<close>

type_synonym ostream = string

definition digit_char :: "nat \<Rightarrow> char" where
  "digit_char d = ''0123456789'' ! d"

fun digits :: "nat \<Rightarrow> string" where
  "digits n =
     (if n < 10 then [digit_char n]
      else digits (n div 10) @ [digit_char (n mod 10)])"

declare digits.simps [simp del]

definition show_int :: "cint \<Rightarrow> string" where
  "show_int i =
     (if sint i < 0 then CHR ''-'' # digits (nat (- sint i)) else digits (nat (sint i)))"

function pad_left :: "nat \<Rightarrow> string \<Rightarrow> string" where
  "pad_left n s = (if length s < n then pad_left n (CHR ''0'' # s) else s)"
  by pat_completeness auto
termination
  by (relation "measure (\<lambda>(n, s). n - length s)") auto

declare pad_left.simps [simp del]

definition strip_zeros :: "string \<Rightarrow> string" where
  "strip_zeros s = rev (dropWhile (\<lambda>c. c = CHR ''0'') (rev s))"

text \<open>
  A float is written as \<^verbatim>\<open>printf\<close> writes it with \<^verbatim>\<open>%g\<close> and precision 6. For a finite
  value of \<open>m\<close> units of \<open>2 ^ -149\<close>: \<open>pow10_le X m\<close> says \<open>10 ^ X\<close> is at most the value;
  the decimal exponent is the largest such \<open>X\<close>; the value is rounded (to nearest, ties
  to even) to six significant digits, \<open>D\<close> times \<open>10 ^ (X - 5)\<close>; with \<open>- 4 \<le> X < 6\<close> it
  is written in fixed notation, otherwise in scientific notation with an exponent of at
  least two digits; trailing zeros of the fraction go, and the point with them when
  nothing is left. Infinities are \<^verbatim>\<open>inf\<close>, NaNs \<^verbatim>\<open>nan\<close>, after the sign.
\<close>

definition pow10_le :: "int \<Rightarrow> nat \<Rightarrow> bool" where
  "pow10_le X m =
     (if 0 \<le> X then 10 ^ nat X * 2 ^ 149 \<le> m else 2 ^ 149 \<le> m * 10 ^ nat (- X))"

function exp_search :: "int \<Rightarrow> nat \<Rightarrow> int" where
  "exp_search X m = (if X \<le> - 45 \<or> pow10_le X m then X else exp_search (X - 1) m)"
  by pat_completeness auto
termination
  by (relation "measure (\<lambda>(X, m). nat (X + 45))") auto

declare exp_search.simps [simp del]

definition decimal_exponent :: "nat \<Rightarrow> int" where
  "decimal_exponent m = exp_search 38 m"

definition round_half_even :: "nat \<Rightarrow> nat \<Rightarrow> nat" where
  "round_half_even n d =
     (if d < 2 * (n mod d) \<or> (2 * (n mod d) = d \<and> odd (n div d)) then n div d + 1
      else n div d)"

definition significand6 :: "nat \<Rightarrow> int \<Rightarrow> nat" where
  "significand6 m X =
     (if 5 \<le> X then round_half_even m (2 ^ 149 * 10 ^ nat (X - 5))
      else round_half_even (m * 10 ^ nat (5 - X)) (2 ^ 149))"

definition fraction_part :: "string \<Rightarrow> string" where
  "fraction_part ds = (if strip_zeros ds = [] then [] else CHR ''.'' # strip_zeros ds)"

definition fixed_digits :: "nat \<Rightarrow> nat \<Rightarrow> string" where
  "fixed_digits D k = digits (D div 10 ^ k) @ fraction_part (pad_left k (digits (D mod 10 ^ k)))"

definition show_fixed :: "nat \<Rightarrow> int \<Rightarrow> string" where
  "show_fixed D X = fixed_digits D (nat (5 - X))"

definition show_scientific :: "nat \<Rightarrow> int \<Rightarrow> string" where
  "show_scientific D X =
     take 1 (digits D) @ fraction_part (drop 1 (digits D)) @ ''e''
       @ (if X < 0 then ''-'' else ''+'') @ pad_left 2 (digits (nat \<bar>X\<bar>))"

definition show_digits :: "nat \<Rightarrow> int \<Rightarrow> string" where
  "show_digits D X = (if - 4 \<le> X \<and> X < 6 then show_fixed D X else show_scientific D X)"

definition show_rounded :: "nat \<Rightarrow> int \<Rightarrow> string" where
  "show_rounded D X = (if D = 10 ^ 6 then show_digits (10 ^ 5) (X + 1) else show_digits D X)"

definition show_at :: "nat \<Rightarrow> int \<Rightarrow> string" where
  "show_at m X = show_rounded (significand6 m X) X"

definition show_general :: "nat \<Rightarrow> string" where
  "show_general m = (if m = 0 then ''0'' else show_at m (decimal_exponent m))"

definition show_float :: "float \<Rightarrow> string" where
  "show_float f =
     (if sign_bit f then ''-'' else []) @
     (if is_nan f then ''nan''
      else if exponent f = 255 then ''inf''
      else show_general (magnitude f))"

definition ins_cstr :: "ostream \<Rightarrow> string \<Rightarrow> ostream" where
  "ins_cstr os s = os @ c_str s"

definition ins_int :: "ostream \<Rightarrow> cint \<Rightarrow> ostream" where
  "ins_int os i = os @ show_int i"

definition ins_float :: "ostream \<Rightarrow> float \<Rightarrow> ostream" where
  "ins_float os f = os @ show_float f"

definition endl :: "ostream \<Rightarrow> ostream" where
  "endl os = os @ [CHR 0x0A]"

text \<open>The friend \<^verbatim>\<open>operator<<\<close> of \<^verbatim>\<open>Card\<close>: eleven insertions, left to right.\<close>

definition ins_Card :: "ostream \<Rightarrow> Card \<Rightarrow> ostream" where
  "ins_Card os crd =
     ins_cstr (ins_int (ins_cstr (ins_int (ins_cstr (ins_float (ins_cstr (ins_cstr
       (ins_cstr (ins_int (ins_cstr os
         ''['') (m_id crd)) ''] '') (m_name crd)) '' ('') (m_cost crd)) '') ['')
         (m_version crd)) '', '') (m_leader_id crd)) '']''"

section \<open>The program: main\<close>

text \<open>The float literals of \<^verbatim>\<open>main\<close>, as bit patterns.\<close>

definition lit_30 :: float where "lit_30 = 0x41F00000"
definition lit_10 :: float where "lit_10 = 0x41200000"
definition lit_12_5 :: float where "lit_12_5 = 0x41480000"
definition lit_100 :: float where "lit_100 = 0x42C80000"
definition lit_45 :: float where "lit_45 = 0x42340000"
definition lit_50 :: float where "lit_50 = 0x42480000"

text \<open>
  The local variables \<^verbatim>\<open>cards\<close> and \<^verbatim>\<open>out_cards\<close> are two vectors. The five
  \<^verbatim>\<open>new\<close> expressions return five different non-null addresses; which ones is not
  specified, the model takes 1 to 5.
\<close>

definition cards_var :: vref where "cards_var = 0"
definition out_cards_var :: vref where "out_cards_var = 1"

definition main_heap :: "addr \<rightharpoonup> Card" where
  "main_heap =
     [1 \<mapsto> Card_ctor 0 ''Card1'' lit_30 1 0,
      2 \<mapsto> Card_ctor 1 ''Card2'' lit_10 1 0,
      3 \<mapsto> Card_ctor 2 ''Card3'' lit_12_5 1 1,
      4 \<mapsto> Card_ctor 3 ''Card4'' lit_100 1 1,
      5 \<mapsto> Card_ctor 4 ''Card5'' lit_45 2 1]"

definition main_init :: memory where
  "main_init = \<lparr>heap = main_heap, vectors = (\<lambda>v. [])(cards_var := [1, 2, 3, 4, 5])\<rparr>"

definition main_filter :: "MetaFilter option" where
  "main_filter =
     map_option
       (\<lambda>fltr. MetaFilter_max_cost lit_50
                 (MetaFilter_add_version 3 (MetaFilter_add_version 1 fltr)))
       (MetaFilter_instantiate [T_CostFilter, T_VersionFilter])"

fun print_cards :: "memory \<Rightarrow> addr list \<Rightarrow> ostream \<Rightarrow> ostream option" where
  "print_cards mem [] os = Some os"
| "print_cards mem (p # rest) os =
     (case heap mem p of
        None \<Rightarrow> None
      | Some crd \<Rightarrow> print_cards mem rest (endl (ins_Card os crd)))"

text \<open>
  \<^verbatim>\<open>main\<close> up to the \<^verbatim>\<open>getchar()\<close>: the value \<^verbatim>\<open>get_cards\<close> returned, the memory
  and the text on \<^verbatim>\<open>std::cout\<close>.
\<close>

definition main_program :: "(nat \<times> memory \<times> ostream) option" where
  "main_program =
     (case main_filter of
        None \<Rightarrow> None
      | Some fltr \<Rightarrow>
          (case get_cards MetaFilter_evaluate cards_var fltr out_cards_var main_init of
             None \<Rightarrow> None
           | Some (n, mem) \<Rightarrow>
               (case print_cards mem (vectors mem out_cards_var)
                       (endl (ins_cstr [] ''These are the filtered cards:'')) of
                  None \<Rightarrow> None
                | Some os \<Rightarrow> Some (n, mem, os))))"

section \<open>Properties\<close>

subsection \<open>Floats\<close>

lemmas float_defs = float_less_def float_greater_def float_eq_def is_nan_def is_finite_def
  scaled_def sign_bit_def magnitude_def exponent_def fraction_def

lemmas literal_defs = lit_30_def lit_10_def lit_12_5_def lit_100_def lit_45_def lit_50_def
  FLT_MAX_def

text \<open>The literals of \<^verbatim>\<open>main\<close> denote the values written in the source.\<close>

lemma float_literals:
  "scaled lit_30 = 30 * 2 ^ 149" "scaled lit_10 = 10 * 2 ^ 149"
  "scaled lit_12_5 = 25 * 2 ^ 148" "scaled lit_100 = 100 * 2 ^ 149"
  "scaled lit_45 = 45 * 2 ^ 149" "scaled lit_50 = 50 * 2 ^ 149" "scaled 0 = 0"
  by (simp_all add: float_defs literal_defs)

lemma exponent_less: "exponent f < 256"
  by (simp add: exponent_def)

lemma fraction_less: "fraction f < 2 ^ 23"
  by (simp add: fraction_def)

lemma magnitude_finite:
  assumes "is_finite f"
  shows "magnitude f \<le> (2 ^ 24 - 1) * 2 ^ 253"
proof (cases "exponent f = 0")
  case True
  have "fraction f < 2 ^ 23" by (rule fraction_less)
  also have "(2::nat) ^ 23 \<le> (2 ^ 24 - 1) * 2 ^ 253" by simp
  finally show ?thesis using True by (simp add: magnitude_def)
next
  case False
  have e: "exponent f - 1 \<le> 253"
    using assms exponent_less [of f] by (simp add: is_finite_def)
  have "2 ^ 23 + fraction f \<le> 2 ^ 24 - 1"
    using fraction_less [of f] by simp
  moreover have "(2::nat) ^ (exponent f - 1) \<le> 2 ^ 253"
    using e by (intro power_increasing) simp_all
  ultimately have "(2 ^ 23 + fraction f) * 2 ^ (exponent f - 1) \<le> (2 ^ 24 - 1) * 2 ^ 253"
    by (rule mult_le_mono)
  then show ?thesis using False by (simp add: magnitude_def)
qed

lemma scaled_FLT_MAX: "scaled FLT_MAX = (2 ^ 24 - 1) * 2 ^ 253"
  by (simp add: scaled_def FLT_MAX_def sign_bit_def magnitude_def exponent_def fraction_def)

lemma scaled_le_FLT_MAX: "is_finite f \<Longrightarrow> scaled f \<le> scaled FLT_MAX"
proof -
  assume "is_finite f"
  then have "int (magnitude f) \<le> int ((2 ^ 24 - 1) * 2 ^ 253)"
    using magnitude_finite by (simp only: of_nat_le_iff)
  moreover have "scaled f \<le> int (magnitude f)" by (simp add: scaled_def)
  ultimately show ?thesis by (simp add: scaled_FLT_MAX)
qed

subsection \<open>The components\<close>

lemma std_find_end: "(std_find xs v = length xs) = (v \<notin> set xs)"
  by (induction xs) auto

lemma fold_add_version: "m_versions (fold add_version S this) = m_versions this @ S"
  by (induction S arbitrary: this) (auto simp: add_version_def)

text \<open>
  Claim C3. Whatever the configured bounds (in particular when the minimum is less than
  the maximum), \<^verbatim>\<open>CostFilter::evaluate\<close> is true exactly when the minimum is less than the
  record's cost and the cost is less than the maximum, in the comparison of floats; a
  cost equal to a bound is rejected (and so is a NaN cost, which compares false with
  everything). \<^verbatim>\<open>min_cost\<close> and \<^verbatim>\<open>max_cost\<close> set the bound they name and keep the
  other. The default minimum is zero; the default maximum is \<^verbatim>\<open>FLT_MAX\<close>, which is
  finite and at least every finite float.
\<close>

theorem CostFilter_evaluate_range:
  "(CostFilter_evaluate this crd \<longleftrightarrow>
      float_less (m_min_cost this) (m_cost crd) \<and> float_less (m_cost crd) (m_max_cost this)) \<and>
   (float_eq (m_cost crd) (m_min_cost this) \<or> float_eq (m_cost crd) (m_max_cost this)
      \<longrightarrow> \<not> CostFilter_evaluate this crd) \<and>
   m_min_cost (min_cost mn (max_cost mx that)) = mn \<and>
   m_max_cost (min_cost mn (max_cost mx that)) = mx \<and>
   m_min_cost (max_cost mx (min_cost mn that)) = mn \<and>
   m_max_cost (max_cost mx (min_cost mn that)) = mx \<and>
   scaled (m_min_cost CostFilter_ctor) = 0 \<and>
   m_max_cost CostFilter_ctor = FLT_MAX \<and>
   is_finite FLT_MAX \<and>
   (\<forall>f. is_finite f \<longrightarrow> scaled f \<le> scaled FLT_MAX)"
proof (intro conjI)
  show "CostFilter_evaluate this crd \<longleftrightarrow>
      float_less (m_min_cost this) (m_cost crd) \<and> float_less (m_cost crd) (m_max_cost this)"
    by (simp add: CostFilter_evaluate_def float_greater_def)
  show "float_eq (m_cost crd) (m_min_cost this) \<or> float_eq (m_cost crd) (m_max_cost this)
      \<longrightarrow> \<not> CostFilter_evaluate this crd"
    by (auto simp: CostFilter_evaluate_def float_greater_def float_less_def float_eq_def)
  show "scaled (m_min_cost CostFilter_ctor) = 0"
    by (simp add: CostFilter_ctor_def float_defs)
  show "is_finite FLT_MAX"
    by (simp add: FLT_MAX_def is_finite_def exponent_def)
  show "\<forall>f. is_finite f \<longrightarrow> scaled f \<le> scaled FLT_MAX"
    by (simp add: scaled_le_FLT_MAX)
qed (simp_all add: min_cost_def max_cost_def CostFilter_ctor_def)

text \<open>
  Claim C3 at the filter of \<^verbatim>\<open>main\<close> (maximum 50, default minimum): cost 30 is
  accepted, cost 50, equal to the maximum, is rejected.
\<close>

theorem CostFilter_evaluate_range_witness:
  "float_less 0 lit_50 \<and>
   CostFilter_evaluate (max_cost lit_50 CostFilter_ctor) (Card_ctor 0 ''Card1'' lit_30 1 0) \<and>
   float_eq lit_50 (m_max_cost (max_cost lit_50 CostFilter_ctor)) \<and>
   \<not> CostFilter_evaluate (max_cost lit_50 CostFilter_ctor) (Card_ctor 9 ''Edge'' lit_50 1 0) \<and>
   is_finite lit_100 \<and> scaled lit_100 \<le> scaled FLT_MAX"
proof -
  let ?F = "max_cost lit_50 CostFilter_ctor"
  let ?inside = "Card_ctor 0 ''Card1'' lit_30 1 0"
  let ?edge = "Card_ctor 9 ''Edge'' lit_50 1 0"
  have F: "m_min_cost ?F = 0" "m_max_cost ?F = lit_50"
    by (simp_all add: max_cost_def CostFilter_ctor_def)
  have c: "m_cost ?inside = lit_30" "m_cost ?edge = lit_50"
    by (simp_all add: Card_ctor_def)
  have lt: "float_less 0 lit_30" "float_less lit_30 lit_50" "float_less 0 lit_50"
    by (simp_all add: float_defs literal_defs)
  have eq: "float_eq lit_50 lit_50"
    by (simp add: float_defs literal_defs)
  have fin: "is_finite lit_100"
    by (simp add: float_defs literal_defs)
  have 1: "CostFilter_evaluate ?F ?inside"
    using conjunct1 [OF CostFilter_evaluate_range [of ?F ?inside]] lt by (simp add: F c)
  have 2: "\<not> CostFilter_evaluate ?F ?edge"
    using conjunct1 [OF conjunct2 [OF CostFilter_evaluate_range [of ?F ?edge]]] eq
    by (simp add: F c)
  have 3: "scaled lit_100 \<le> scaled FLT_MAX"
    using CostFilter_evaluate_range [of ?F ?inside] fin by blast
  show ?thesis
    using 1 2 3 lt eq fin by (simp only: F) simp
qed

text \<open>
  Claim C4. \<^verbatim>\<open>VersionFilter::evaluate\<close> is true exactly when the record's version
  occurs in \<^verbatim>\<open>m_versions\<close>. Starting from the default-constructed filter, the calls
  \<^verbatim>\<open>add_version\<close> for the elements of \<open>S\<close>, in order, make \<^verbatim>\<open>m_versions\<close> equal to
  \<open>S\<close>, so the filter accepts exactly the versions in \<open>S\<close>; with no call at all it
  accepts no record.
\<close>

theorem VersionFilter_evaluate_membership:
  "(VersionFilter_evaluate this crd \<longleftrightarrow> m_version crd \<in> set (m_versions this)) \<and>
   m_versions (fold add_version S VersionFilter_ctor) = S \<and>
   (VersionFilter_evaluate (fold add_version S VersionFilter_ctor) crd \<longleftrightarrow> m_version crd \<in> set S) \<and>
   \<not> VersionFilter_evaluate VersionFilter_ctor crd"
  by (simp add: VersionFilter_evaluate_def std_find_end fold_add_version VersionFilter_ctor_def)

subsection \<open>The composer\<close>

lemma evaluate_more_ret:
  "fst (evaluate_more fs crd (ret, calls)) = (ret \<and> list_all (\<lambda>f. base_evaluate f crd) fs)"
  by (induction fs arbitrary: ret calls) auto

lemma evaluate_more_calls:
  "snd (evaluate_more fs crd (ret, calls)) =
     calls @ (if ret then take (Suc (length (takeWhile (\<lambda>f. base_evaluate f crd) fs))) fs else [])"
  by (induction fs arbitrary: ret calls) auto

text \<open>
  Claim C1. For every record and every composer, whatever its components and their
  configuration, \<^verbatim>\<open>evaluate\<close> of the composer returns the conjunction of the results
  of \<^verbatim>\<open>evaluate\<close> of each declared component on that record: of the first template
  argument and of every further one.
\<close>

theorem MetaFilter_evaluate_conjunction:
  "MetaFilter_evaluate this crd =
     list_all (\<lambda>f. base_evaluate f crd) (Filter this # MoreFilters this)"
  by (simp add: MetaFilter_evaluate_def MetaFilter_run_def evaluate_more_ret)

text \<open>
  Claim C6 says every declared component is evaluated whatever the earlier results.
  On \<^verbatim>\<open>main\<close>'s filter \<^verbatim>\<open>MetaFilter<CostFilter, VersionFilter>\<close> and its fourth record
  (cost 100, above the maximum 50), \<^verbatim>\<open>CostFilter::evaluate\<close> returns false and
  \<^verbatim>\<open>VersionFilter::evaluate\<close> is never called: the only call is the first one.
\<close>

theorem MetaFilter_calls_all_counterexample:
  "MetaFilter_calls
     \<lparr>Filter = CostF (max_cost lit_50 CostFilter_ctor),
      MoreFilters = [VersionF (VersionFilter_init [1, 3])]\<rparr>
     (Card_ctor 3 ''Card4'' lit_100 1 1) = [CostF (max_cost lit_50 CostFilter_ctor)] \<and>
   MetaFilter_calls
     \<lparr>Filter = CostF (max_cost lit_50 CostFilter_ctor),
      MoreFilters = [VersionF (VersionFilter_init [1, 3])]\<rparr>
     (Card_ctor 3 ''Card4'' lit_100 1 1) \<noteq>
   [CostF (max_cost lit_50 CostFilter_ctor), VersionF (VersionFilter_init [1, 3])]"
  by (simp add: MetaFilter_calls_def MetaFilter_run_def CostFilter_evaluate_def max_cost_def
      CostFilter_ctor_def Card_ctor_def float_defs literal_defs)

text \<open>
  Claim C6, amended. \<^verbatim>\<open>MetaFilter::evaluate\<close> calls \<^verbatim>\<open>evaluate\<close> of the declared
  components in declaration order, up to and including the first one that returns
  false; the components declared after that one are not evaluated. The first component
  is always evaluated, and all of them are when none returns false.
\<close>

theorem MetaFilter_calls_until_false:
  "MetaFilter_calls this crd =
     take (Suc (length (takeWhile (\<lambda>f. base_evaluate f crd) (Filter this # MoreFilters this))))
       (Filter this # MoreFilters this)"
  by (simp add: MetaFilter_calls_def MetaFilter_run_def evaluate_more_calls)

subsection \<open>What get_cards computes\<close>

lemma matches_push_back:
  "matches ev f (push_back out p mem) = matches ev f mem"
  by (rule ext) (simp add: matches_def push_back_def)

lemma get_cards_loop_Some:
  "set ps \<subseteq> dom (heap mem) \<Longrightarrow>
   get_cards_loop ev f out ps (mem, evd) =
     Some (mem\<lparr>vectors := (vectors mem)(out := vectors mem out @ filter (matches ev f mem) ps)\<rparr>,
           evd @ ps)"
proof (induction ps arbitrary: mem evd)
  case Nil
  then show ?case by simp
next
  case (Cons p ps)
  from Cons.prems obtain crd where crd: "heap mem p = Some crd" by auto
  from Cons.prems have ps: "set ps \<subseteq> dom (heap (push_back out p mem))" "set ps \<subseteq> dom (heap mem)"
    by (auto simp: push_back_def)
  show ?case
  proof (cases "ev f crd")
    case True
    have m: "matches ev f mem p" using crd True by (simp add: matches_def)
    have eq: "(push_back out p mem)\<lparr>vectors := (vectors (push_back out p mem))
                 (out := vectors (push_back out p mem) out @ filter (matches ev f mem) ps)\<rparr> =
              mem\<lparr>vectors := (vectors mem)
                 (out := vectors mem out @ p # filter (matches ev f mem) ps)\<rparr>"
      by (simp add: push_back_def)
    have "get_cards_loop ev f out ps (push_back out p mem, evd @ [p]) =
            Some (mem\<lparr>vectors := (vectors mem)
                    (out := vectors mem out @ p # filter (matches ev f mem) ps)\<rparr>, (evd @ [p]) @ ps)"
      using Cons.IH [OF ps(1), of "evd @ [p]"] by (simp only: matches_push_back eq)
    then show ?thesis using crd True m by (simp add: fun_upd_def)
  next
    case False
    have m: "\<not> matches ev f mem p" using crd False by (simp add: matches_def)
    show ?thesis using crd False m Cons.IH [OF ps(2), of "evd @ [p]"] by (simp add: fun_upd_def)
  qed
qed

lemma get_cards_loop_None:
  "\<not> set ps \<subseteq> dom (heap mem) \<Longrightarrow> get_cards_loop ev f out ps (mem, evd) = None"
proof (induction ps arbitrary: mem evd)
  case Nil
  then show ?case by simp
next
  case (Cons p ps)
  show ?case
  proof (cases "heap mem p")
    case None
    then show ?thesis by simp
  next
    case (Some crd)
    with Cons.prems have "\<not> set ps \<subseteq> dom (heap mem)" by auto
    then have "\<not> set ps \<subseteq> dom (heap (push_back out p mem))" "\<not> set ps \<subseteq> dom (heap mem)"
      by (simp_all add: push_back_def)
    then show ?thesis using Some by (simp add: Cons.IH)
  qed
qed

lemma get_cards_run_eq:
  "get_cards_run ev cards f out mem =
     (if set (visited cards out mem) \<subseteq> dom (heap mem)
      then Some (mem\<lparr>vectors := (vectors mem)(out := filter (matches ev f mem) (visited cards out mem))\<rparr>,
                 visited cards out mem)
      else None)"
proof -
  have v: "vectors (clear out mem) cards = visited cards out mem"
    by (simp add: clear_def visited_def)
  have h: "heap (clear out mem) = heap mem" by (simp add: clear_def)
  have m: "matches ev f (clear out mem) = matches ev f mem"
    by (rule ext) (simp add: matches_def clear_def)
  show ?thesis
  proof (cases "set (visited cards out mem) \<subseteq> dom (heap mem)")
    case True
    then have "set (visited cards out mem) \<subseteq> dom (heap (clear out mem))" by (simp add: h)
    from get_cards_loop_Some [OF this, of ev f out "[]"] True show ?thesis
      by (simp add: get_cards_run_def reserve_def v m) (simp add: clear_def)
  next
    case False
    then have "\<not> set (visited cards out mem) \<subseteq> dom (heap (clear out mem))" by (simp add: h)
    from get_cards_loop_None [OF this, of ev f out "[]"] False show ?thesis
      by (simp add: get_cards_run_def reserve_def v)
  qed
qed

lemma get_cards_eq:
  "get_cards ev cards f out mem =
     (if set (visited cards out mem) \<subseteq> dom (heap mem)
      then Some (length (filter (matches ev f mem) (visited cards out mem)),
                 mem\<lparr>vectors := (vectors mem)(out := filter (matches ev f mem) (visited cards out mem))\<rparr>)
      else None)"
  by (simp add: get_cards_def get_cards_run_eq vector_size_def)

lemma get_cards_evaluated_eq:
  "get_cards_evaluated ev cards f out mem =
     (if set (visited cards out mem) \<subseteq> dom (heap mem) then Some (visited cards out mem) else None)"
  by (simp add: get_cards_evaluated_def get_cards_run_eq)

lemma visited_distinct: "out_cards \<noteq> cards \<Longrightarrow> visited cards out_cards mem = vectors mem cards"
  by (auto simp: visited_def)

lemma visited_same: "visited cards cards mem = []"
  by (simp add: visited_def)

subsection \<open>The data of main\<close>

lemma main_filter_eq:
  "main_filter =
     Some \<lparr>Filter = CostF \<lparr>m_max_cost = lit_50, m_min_cost = 0\<rparr>,
           MoreFilters = [VersionF \<lparr>m_versions = [1, 3]\<rparr>]\<rparr>"
  by (simp add: main_filter_def MetaFilter_decl_def MetaFilter_max_cost_def
      MetaFilter_add_version_def on_bases_def max_cost_def add_version_def
      CostFilter_ctor_def VersionFilter_ctor_def)

lemma main_matches:
  "filter (matches MetaFilter_evaluate
      \<lparr>Filter = CostF \<lparr>m_max_cost = lit_50, m_min_cost = 0\<rparr>,
       MoreFilters = [VersionF \<lparr>m_versions = [1, 3]\<rparr>]\<rparr> main_init)
     (vectors main_init cards_var) = [1, 2, 3]"
  by (simp add: matches_def main_init_def main_heap_def Card_ctor_def MetaFilter_evaluate_def
      MetaFilter_run_def CostFilter_evaluate_def VersionFilter_evaluate_def float_defs literal_defs)

lemma main_init_valid: "set (vectors main_init cards_var) \<subseteq> dom (heap main_init)"
  by (simp add: main_init_def main_heap_def cards_var_def)

lemma main_vars: "out_cards_var \<noteq> cards_var"
  by (simp add: out_cards_var_def cards_var_def)

lemma main_cards: "vectors main_init cards_var = [1, 2, 3, 4, 5]"
  by (simp add: main_init_def)

lemma main_get_cards:
  "get_cards MetaFilter_evaluate cards_var
     \<lparr>Filter = CostF \<lparr>m_max_cost = lit_50, m_min_cost = 0\<rparr>,
      MoreFilters = [VersionF \<lparr>m_versions = [1, 3]\<rparr>]\<rparr> out_cards_var main_init =
   Some (3, main_init\<lparr>vectors := (vectors main_init)(out_cards_var := [1, 2, 3])\<rparr>)"
  by (simp add: get_cards_eq visited_distinct main_vars main_init_valid main_matches)

subsection \<open>The collection filter operation\<close>

text \<open>
  Claim C2 speaks of every call of \<^verbatim>\<open>get_cards\<close>. The call
  \<^verbatim>\<open>get_cards( cards, filter, cards )\<close> of \<^verbatim>\<open>main\<close>'s filter on \<^verbatim>\<open>main\<close>'s data, with
  the input vector as the output vector too, returns 0 and leaves the vector empty,
  although the records at 1, 2 and 3 pass the filter: \<^verbatim>\<open>out_cards.clear()\<close> has emptied
  the input before the loop starts.
\<close>

theorem get_cards_aliased_counterexample:
  "get_cards MetaFilter_evaluate cards_var
     \<lparr>Filter = CostF \<lparr>m_max_cost = lit_50, m_min_cost = 0\<rparr>,
      MoreFilters = [VersionF \<lparr>m_versions = [1, 3]\<rparr>]\<rparr> cards_var main_init =
     Some (0, main_init\<lparr>vectors := (vectors main_init)(cards_var := [])\<rparr>) \<and>
   vectors (main_init\<lparr>vectors := (vectors main_init)(cards_var := [])\<rparr>) cards_var = [] \<and>
   filter (matches MetaFilter_evaluate
        \<lparr>Filter = CostF \<lparr>m_max_cost = lit_50, m_min_cost = 0\<rparr>,
         MoreFilters = [VersionF \<lparr>m_versions = [1, 3]\<rparr>]\<rparr> main_init)
     (vectors main_init cards_var) = [1, 2, 3]"
  by (simp add: get_cards_eq visited_same main_matches)

text \<open>
  Claim C2, amended. When the output vector is another object than the input vector
  and every element of the input points to a live record, \<^verbatim>\<open>get_cards\<close> returns, and
  the output vector then holds exactly the input elements whose record the filter
  accepts, in input order: a subsequence of the input, without duplicates when the input
  has none. The returned value is the number of these elements. Nothing else in memory
  changes.
\<close>

theorem get_cards_filters_input:
  assumes "out_cards \<noteq> cards" and "set (vectors mem cards) \<subseteq> dom (heap mem)"
  shows "get_cards ev cards f out_cards mem =
           Some (length (filter (matches ev f mem) (vectors mem cards)),
                 mem\<lparr>vectors := (vectors mem)
                   (out_cards := filter (matches ev f mem) (vectors mem cards))\<rparr>) \<and>
         subseq (filter (matches ev f mem) (vectors mem cards)) (vectors mem cards) \<and>
         (distinct (vectors mem cards) \<longrightarrow>
            distinct (filter (matches ev f mem) (vectors mem cards)))"
  using assms by (simp add: get_cards_eq visited_distinct)

text \<open>The amended claim C2 on the data and the filter of \<^verbatim>\<open>main\<close>.\<close>

theorem get_cards_filters_input_witness:
  "out_cards_var \<noteq> cards_var \<and>
   set (vectors main_init cards_var) \<subseteq> dom (heap main_init) \<and>
   distinct (vectors main_init cards_var) \<and>
   get_cards MetaFilter_evaluate cards_var
     \<lparr>Filter = CostF \<lparr>m_max_cost = lit_50, m_min_cost = 0\<rparr>,
      MoreFilters = [VersionF \<lparr>m_versions = [1, 3]\<rparr>]\<rparr> out_cards_var main_init =
     Some (3, main_init\<lparr>vectors := (vectors main_init)(out_cards_var := [1, 2, 3])\<rparr>) \<and>
   subseq [1, 2, 3] (vectors main_init cards_var) \<and> distinct [1, 2, 3 :: addr]"
  using get_cards_filters_input [OF main_vars main_init_valid, of MetaFilter_evaluate
      "\<lparr>Filter = CostF \<lparr>m_max_cost = lit_50, m_min_cost = 0\<rparr>,
        MoreFilters = [VersionF \<lparr>m_versions = [1, 3]\<rparr>]\<rparr>"]
    main_vars main_init_valid
  by (simp add: main_matches) (simp add: main_cards)

text \<open>
  Claim C7. When a call of \<^verbatim>\<open>get_cards\<close> returns, the same call again, on the memory
  the first call left, returns the same count and leaves the memory, the output vector
  included, as the first call left it. This holds for every output vector, also when it
  is the input vector itself.
\<close>

theorem get_cards_idempotent:
  assumes "get_cards ev cards f out_cards mem = Some (n, mem')"
  shows "get_cards ev cards f out_cards mem' = Some (n, mem')"
proof -
  let ?xs = "visited cards out_cards mem"
  let ?r = "filter (matches ev f mem) ?xs"
  from assms have ok: "set ?xs \<subseteq> dom (heap mem)"
    by (simp add: get_cards_eq split: if_splits)
  with assms have n: "n = length ?r"
    and mem': "mem' = mem\<lparr>vectors := (vectors mem)(out_cards := ?r)\<rparr>"
    by (simp_all add: get_cards_eq)
  have xs: "visited cards out_cards mem' = ?xs"
    by (simp add: mem' visited_def)
  have m: "matches ev f mem' = matches ev f mem"
    by (rule ext) (simp add: mem' matches_def)
  have "mem'\<lparr>vectors := (vectors mem')(out_cards := ?r)\<rparr> = mem'"
    by (simp add: mem')
  with ok show ?thesis
    by (simp add: get_cards_eq xs m n) (simp add: mem')
qed

text \<open>
  Claim C7 on the data of \<^verbatim>\<open>main\<close>, filtered twice by a \<^verbatim>\<open>CostFilter\<close> with maximum 50
  into \<^verbatim>\<open>out_cards\<close>.
\<close>

theorem get_cards_idempotent_witness:
  "get_cards CostFilter_evaluate cards_var (max_cost lit_50 CostFilter_ctor) out_cards_var
       main_init =
     Some (4, main_init\<lparr>vectors := (vectors main_init)(out_cards_var := [1, 2, 3, 5])\<rparr>) \<and>
   get_cards CostFilter_evaluate cards_var (max_cost lit_50 CostFilter_ctor) out_cards_var
       (main_init\<lparr>vectors := (vectors main_init)(out_cards_var := [1, 2, 3, 5])\<rparr>) =
     Some (4, main_init\<lparr>vectors := (vectors main_init)(out_cards_var := [1, 2, 3, 5])\<rparr>)"
proof -
  have m: "filter (matches CostFilter_evaluate (max_cost lit_50 CostFilter_ctor) main_init)
             (vectors main_init cards_var) = [1, 2, 3, 5]"
    by (simp add: matches_def main_init_def main_heap_def Card_ctor_def CostFilter_evaluate_def
        max_cost_def CostFilter_ctor_def float_defs literal_defs)
  have h: "get_cards CostFilter_evaluate cards_var (max_cost lit_50 CostFilter_ctor)
             out_cards_var main_init =
           Some (4, main_init\<lparr>vectors := (vectors main_init)(out_cards_var := [1, 2, 3, 5])\<rparr>)"
    by (simp add: get_cards_eq visited_distinct main_vars main_init_valid m)
  from h get_cards_idempotent [OF h] show ?thesis by simp
qed

text \<open>
  Claim C8 says the input vector is the same after every call. A call with the vector
  \<^verbatim>\<open>cards\<close> of \<^verbatim>\<open>main\<close> as input and as output leaves it empty.
\<close>

theorem get_cards_input_changed_counterexample:
  "vectors main_init cards_var = [1, 2, 3, 4, 5] \<and>
   get_cards VersionFilter_evaluate cards_var (VersionFilter_init [1]) cards_var main_init =
     Some (0, main_init\<lparr>vectors := (vectors main_init)(cards_var := [])\<rparr>) \<and>
   vectors (main_init\<lparr>vectors := (vectors main_init)(cards_var := [])\<rparr>) cards_var = []"
  by (simp add: get_cards_eq visited_same main_cards)

text \<open>
  Claim C8, amended. A call of \<^verbatim>\<open>get_cards\<close> that returns writes no record and no
  vector other than the output vector. When the output vector is another object than
  the input vector, the input vector is unchanged and \<^verbatim>\<open>evaluate\<close> has been called
  exactly once for each of its elements, in order. In every case the pointers passed to
  \<^verbatim>\<open>evaluate\<close> form a subsequence of the input: no element is evaluated twice.
\<close>

theorem get_cards_frame:
  assumes "get_cards ev cards f out_cards mem = Some (n, mem')"
  shows "heap mem' = heap mem \<and>
         (\<forall>v. v \<noteq> out_cards \<longrightarrow> vectors mem' v = vectors mem v) \<and>
         (out_cards \<noteq> cards \<longrightarrow>
            vectors mem' cards = vectors mem cards \<and>
            get_cards_evaluated ev cards f out_cards mem = Some (vectors mem cards)) \<and>
         (\<exists>evaluated. get_cards_evaluated ev cards f out_cards mem = Some evaluated \<and>
            subseq evaluated (vectors mem cards))"
proof -
  from assms have ok: "set (visited cards out_cards mem) \<subseteq> dom (heap mem)"
    by (simp add: get_cards_eq split: if_splits)
  with assms have mem': "mem' = mem\<lparr>vectors := (vectors mem)
      (out_cards := filter (matches ev f mem) (visited cards out_cards mem))\<rparr>"
    by (simp add: get_cards_eq)
  have "subseq (visited cards out_cards mem) (vectors mem cards)"
    by (simp add: visited_def)
  with ok show ?thesis
    by (cases "out_cards = cards") (simp_all add: mem' get_cards_evaluated_eq visited_def)
qed

text \<open>
  The amended claim C8 on the data of \<^verbatim>\<open>main\<close>, filtered by a \<^verbatim>\<open>VersionFilter\<close>
  accepting version 1 into a separate output vector.
\<close>

theorem get_cards_frame_witness:
  "get_cards VersionFilter_evaluate cards_var (VersionFilter_init [1]) out_cards_var main_init =
     Some (4, main_init\<lparr>vectors := (vectors main_init)(out_cards_var := [1, 2, 3, 4])\<rparr>) \<and>
   out_cards_var \<noteq> cards_var \<and>
   vectors (main_init\<lparr>vectors := (vectors main_init)(out_cards_var := [1, 2, 3, 4])\<rparr>) cards_var =
     vectors main_init cards_var \<and>
   get_cards_evaluated VersionFilter_evaluate cards_var (VersionFilter_init [1]) out_cards_var
     main_init = Some [1, 2, 3, 4, 5]"
proof -
  have m: "filter (matches VersionFilter_evaluate (VersionFilter_init [1]) main_init)
             (vectors main_init cards_var) = [1, 2, 3, 4]"
    by (simp add: matches_def main_init_def main_heap_def Card_ctor_def
        VersionFilter_evaluate_def VersionFilter_init_def)
  have h: "get_cards VersionFilter_evaluate cards_var (VersionFilter_init [1]) out_cards_var
             main_init =
           Some (4, main_init\<lparr>vectors := (vectors main_init)(out_cards_var := [1, 2, 3, 4])\<rparr>)"
    by (simp add: get_cards_eq visited_distinct main_vars main_init_valid m)
  from h get_cards_frame [OF h] main_vars show ?thesis
    by (simp add: main_cards)
qed

subsection \<open>The composer without arguments\<close>

lemma matches_EmptyFilter:
  "set xs \<subseteq> dom (heap mem) \<Longrightarrow>
   filter (matches MetaFilter_evaluate \<lparr>Filter = EmptyF, MoreFilters = []\<rparr> mem) xs = xs"
  by (rule filter_True)
     (auto simp: matches_def MetaFilter_evaluate_def MetaFilter_run_def EmptyFilter_evaluate_def)

text \<open>
  Claim C10 says filtering with \<^verbatim>\<open>MetaFilter<>\<close> returns the whole input. With the
  vector \<^verbatim>\<open>cards\<close> of \<^verbatim>\<open>main\<close>, five elements, as input and as output, the call returns
  0 and the vector is empty.
\<close>

theorem MetaFilter_no_arguments_aliased_counterexample:
  "MetaFilter_instantiate [] = Some \<lparr>Filter = EmptyF, MoreFilters = []\<rparr> \<and>
   vectors main_init cards_var = [1, 2, 3, 4, 5] \<and>
   get_cards MetaFilter_evaluate cards_var \<lparr>Filter = EmptyF, MoreFilters = []\<rparr>
       cards_var main_init =
     Some (0, main_init\<lparr>vectors := (vectors main_init)(cards_var := [])\<rparr>) \<and>
   vectors (main_init\<lparr>vectors := (vectors main_init)(cards_var := [])\<rparr>) cards_var = []"
  by (simp add: MetaFilter_decl_def get_cards_eq visited_same main_cards)

text \<open>
  Claim C10, amended. \<^verbatim>\<open>MetaFilter<>\<close> is well-formed: the first template parameter
  takes its default, so the only component is an \<^verbatim>\<open>EmptyFilter\<close>. Its \<^verbatim>\<open>evaluate\<close> is
  true for every record. \<^verbatim>\<open>get_cards\<close> with it, into an output vector that is another
  object than the input vector, all of whose elements point to live records, returns
  the length of the input and makes the output equal to the input.
\<close>

theorem MetaFilter_no_arguments:
  "MetaFilter_instantiate [] = Some \<lparr>Filter = EmptyF, MoreFilters = []\<rparr> \<and>
   MetaFilter_evaluate \<lparr>Filter = EmptyF, MoreFilters = []\<rparr> crd \<and>
   (out_cards \<noteq> cards \<and> set (vectors mem cards) \<subseteq> dom (heap mem) \<longrightarrow>
      get_cards MetaFilter_evaluate cards \<lparr>Filter = EmptyF, MoreFilters = []\<rparr> out_cards mem =
        Some (length (vectors mem cards),
              mem\<lparr>vectors := (vectors mem)(out_cards := vectors mem cards)\<rparr>))"
proof (intro conjI impI)
  show "MetaFilter_instantiate [] = Some \<lparr>Filter = EmptyF, MoreFilters = []\<rparr>"
    by (simp add: MetaFilter_decl_def)
  show "MetaFilter_evaluate \<lparr>Filter = EmptyF, MoreFilters = []\<rparr> crd"
    by (simp add: MetaFilter_evaluate_def MetaFilter_run_def EmptyFilter_evaluate_def)
next
  assume "out_cards \<noteq> cards \<and> set (vectors mem cards) \<subseteq> dom (heap mem)"
  then show "get_cards MetaFilter_evaluate cards \<lparr>Filter = EmptyF, MoreFilters = []\<rparr> out_cards mem =
        Some (length (vectors mem cards),
              mem\<lparr>vectors := (vectors mem)(out_cards := vectors mem cards)\<rparr>)"
    by (simp add: get_cards_eq visited_distinct matches_EmptyFilter)
qed

text \<open>The amended claim C10 on the data of \<^verbatim>\<open>main\<close>.\<close>

theorem MetaFilter_no_arguments_witness:
  "out_cards_var \<noteq> cards_var \<and>
   set (vectors main_init cards_var) \<subseteq> dom (heap main_init) \<and>
   MetaFilter_evaluate \<lparr>Filter = EmptyF, MoreFilters = []\<rparr> (Card_ctor 3 ''Card4'' lit_100 1 1) \<and>
   get_cards MetaFilter_evaluate cards_var \<lparr>Filter = EmptyF, MoreFilters = []\<rparr> out_cards_var
       main_init =
     Some (5, main_init\<lparr>vectors := (vectors main_init)(out_cards_var := [1, 2, 3, 4, 5])\<rparr>)"
  using MetaFilter_no_arguments [of "Card_ctor 3 ''Card4'' lit_100 1 1" out_cards_var cards_var
      main_init] main_vars main_init_valid
  by (simp add: main_cards)

subsection \<open>Rendering and the output of main\<close>

lemmas show_defs = show_float_def show_general_def show_at_def show_rounded_def show_digits_def
  show_fixed_def fixed_digits_def show_scientific_def fraction_part_def significand6_def
  round_half_even_def decimal_exponent_def pow10_le_def strip_zeros_def pad_left.simps
  show_int_def digits.simps digit_char_def exp_search.simps

lemmas stream_defs = ins_Card_def ins_cstr_def ins_int_def ins_float_def endl_def c_str_def

text \<open>
  Claim C9. Inserting a record into a stream appends \<^verbatim>\<open>[id] name (cost) [version, leader]\<close>,
  the numbers as the stream writes an \<^verbatim>\<open>int\<close> and a \<^verbatim>\<open>float\<close>, the name as a C
  string; for a record built by the constructor that is the stored name. The record
  with identifier 2, name Card3, cost 12.5, version 1 and leader 1 is written as
  \<^verbatim>\<open>[2] Card3 (12.5) [1, 1]\<close>.
\<close>

theorem ins_Card_format:
  "ins_Card os crd =
     os @ ''['' @ show_int (m_id crd) @ ''] '' @ c_str (m_name crd) @ '' ('' @
       show_float (m_cost crd) @ '') ['' @ show_int (m_version crd) @ '', '' @
       show_int (m_leader_id crd) @ '']'' \<and>
   ins_Card os (Card_ctor ident name cost version leader_id) =
     os @ ''['' @ show_int ident @ ''] '' @ m_name (Card_ctor ident name cost version leader_id) @
       '' ('' @ show_float cost @ '') ['' @ show_int version @ '', '' @
       show_int leader_id @ '']'' \<and>
   ins_Card [] (Card_ctor 2 ''Card3'' lit_12_5 1 1) = ''[2] Card3 (12.5) [1, 1]''"
proof (intro conjI)
  show "ins_Card os crd =
     os @ ''['' @ show_int (m_id crd) @ ''] '' @ c_str (m_name crd) @ '' ('' @
       show_float (m_cost crd) @ '') ['' @ show_int (m_version crd) @ '', '' @
       show_int (m_leader_id crd) @ '']''"
    by (simp add: stream_defs)
  show "ins_Card os (Card_ctor ident name cost version leader_id) =
     os @ ''['' @ show_int ident @ ''] '' @ m_name (Card_ctor ident name cost version leader_id) @
       '' ('' @ show_float cost @ '') ['' @ show_int version @ '', '' @
       show_int leader_id @ '']''"
    by (simp add: stream_defs Card_ctor_def)
  show "ins_Card [] (Card_ctor 2 ''Card3'' lit_12_5 1 1) = ''[2] Card3 (12.5) [1, 1]''"
    by (simp add: stream_defs Card_ctor_def show_defs float_defs literal_defs)
qed

lemma main_print:
  "print_cards (main_init\<lparr>vectors := (vectors main_init)(out_cards_var := [1, 2, 3])\<rparr>)
     [1, 2, 3] (endl (ins_cstr [] ''These are the filtered cards:'')) =
   Some (''These are the filtered cards:'' @ [CHR 0x0A] @
         ''[0] Card1 (30) [1, 0]'' @ [CHR 0x0A] @
         ''[1] Card2 (10) [1, 0]'' @ [CHR 0x0A] @
         ''[2] Card3 (12.5) [1, 1]'' @ [CHR 0x0A])"
  by (simp add: main_init_def main_heap_def Card_ctor_def stream_defs show_defs float_defs
      literal_defs)

lemma main_program_eq:
  "main_program =
     Some (3, main_init\<lparr>vectors := (vectors main_init)(out_cards_var := [1, 2, 3])\<rparr>,
           ''These are the filtered cards:'' @ [CHR 0x0A] @
           ''[0] Card1 (30) [1, 0]'' @ [CHR 0x0A] @
           ''[1] Card2 (10) [1, 0]'' @ [CHR 0x0A] @
           ''[2] Card3 (12.5) [1, 1]'' @ [CHR 0x0A])"
proof -
  have v: "vectors (main_init\<lparr>vectors := (vectors main_init)(out_cards_var := [1, 2, 3])\<rparr>)
             out_cards_var = [1, 2, 3]"
    by simp
  show ?thesis
    by (simp only: main_program_def main_filter_eq main_get_cards v main_print
        option.case prod.case)
qed

text \<open>
  Claim C5. The five records of \<^verbatim>\<open>main\<close> have the versions 1, 1, 1, 1, 2 and the
  costs 30, 10, 12.5, 100, 45 (in units of \<open>2 ^ -149\<close>); its filter is a
  \<^verbatim>\<open>CostFilter\<close> with maximum 50 and the default minimum and a \<^verbatim>\<open>VersionFilter\<close>
  accepting 1 and 3. \<^verbatim>\<open>get_cards\<close> returns 3, \<^verbatim>\<open>out_cards\<close> then holds the first three
  pointers, whose records have the identifiers 0, 1, 2, and the program prints these
  three records.
\<close>

theorem main_outputs_cards_0_1_2:
  "map (map_option (sint \<circ> m_version) \<circ> heap main_init) (vectors main_init cards_var) =
     [Some 1, Some 1, Some 1, Some 1, Some 2] \<and>
   map (map_option (scaled \<circ> m_cost) \<circ> heap main_init) (vectors main_init cards_var) =
     [Some (30 * 2 ^ 149), Some (10 * 2 ^ 149), Some (25 * 2 ^ 148), Some (100 * 2 ^ 149),
      Some (45 * 2 ^ 149)] \<and>
   main_filter =
     Some \<lparr>Filter = CostF \<lparr>m_max_cost = lit_50, m_min_cost = 0\<rparr>,
           MoreFilters = [VersionF \<lparr>m_versions = [1, 3]\<rparr>]\<rparr> \<and>
   scaled lit_50 = 50 * 2 ^ 149 \<and>
   main_program =
     Some (3, main_init\<lparr>vectors := (vectors main_init)(out_cards_var := [1, 2, 3])\<rparr>,
           ''These are the filtered cards:'' @ [CHR 0x0A] @
           ''[0] Card1 (30) [1, 0]'' @ [CHR 0x0A] @
           ''[1] Card2 (10) [1, 0]'' @ [CHR 0x0A] @
           ''[2] Card3 (12.5) [1, 1]'' @ [CHR 0x0A]) \<and>
   vectors (main_init\<lparr>vectors := (vectors main_init)(out_cards_var := [1, 2, 3])\<rparr>)
     out_cards_var = [1, 2, 3] \<and>
   map (map_option (sint \<circ> m_id) \<circ> heap main_init) [1, 2, 3] = [Some 0, Some 1, Some 2]"
proof (intro conjI)
  show "map (map_option (sint \<circ> m_version) \<circ> heap main_init) (vectors main_init cards_var) =
     [Some 1, Some 1, Some 1, Some 1, Some 2]"
    by (simp add: main_init_def main_heap_def Card_ctor_def)
  show "map (map_option (scaled \<circ> m_cost) \<circ> heap main_init) (vectors main_init cards_var) =
     [Some (30 * 2 ^ 149), Some (10 * 2 ^ 149), Some (25 * 2 ^ 148), Some (100 * 2 ^ 149),
      Some (45 * 2 ^ 149)]"
    by (simp add: main_init_def main_heap_def Card_ctor_def float_literals)
  show "main_filter =
     Some \<lparr>Filter = CostF \<lparr>m_max_cost = lit_50, m_min_cost = 0\<rparr>,
           MoreFilters = [VersionF \<lparr>m_versions = [1, 3]\<rparr>]\<rparr>"
    by (rule main_filter_eq)
  show "scaled lit_50 = 50 * 2 ^ 149"
    by (rule float_literals)
  show "main_program =
     Some (3, main_init\<lparr>vectors := (vectors main_init)(out_cards_var := [1, 2, 3])\<rparr>,
           ''These are the filtered cards:'' @ [CHR 0x0A] @
           ''[0] Card1 (30) [1, 0]'' @ [CHR 0x0A] @
           ''[1] Card2 (10) [1, 0]'' @ [CHR 0x0A] @
           ''[2] Card3 (12.5) [1, 1]'' @ [CHR 0x0A])"
    by (rule main_program_eq)
  show "vectors (main_init\<lparr>vectors := (vectors main_init)(out_cards_var := [1, 2, 3])\<rparr>)
     out_cards_var = [1, 2, 3]"
    by simp
  show "map (map_option (sint \<circ> m_id) \<circ> heap main_init) [1, 2, 3] = [Some 0, Some 1, Some 2]"
    by (simp add: main_init_def main_heap_def Card_ctor_def)
qed

end
